theory Spec2Isabelle
  imports Main
begin

section \<open>The unread-counter store\<close>

text \<open>
  The store keeps three running totals and three per-conversation maps, keyed by the
  conversation token. The totals and the counters are JavaScript numbers, the maps are
  plain objects made reactive by the framework. Both are modelled with what the store's
  expressions can observe of them.
\<close>

subsection \<open>Numbers\<close>

text \<open>
  A counter is a double holding an integer, or one of the three special values. \<open>Fin n\<close>
  is the double of value \<open>n\<close>, for the integers \<open>n\<close> that are doubles: all of them up to
  \<open>2 ^ 53\<close> in magnitude, and beyond that the multiples of \<open>ulp\<close>, the distance
  between neighbouring doubles. The result of an addition is the exact sum rounded to the
  nearest double, ties to the even significand, and an infinity beyond the largest double.
\<close>

datatype number = NaN | PosInf | NegInf | Fin int

fun ulp :: "nat \<Rightarrow> nat" where
  "ulp a = (if a < 2 ^ 53 then 1 else 2 * ulp (a div 2))"

declare ulp.simps [simp del]

definition round_nat :: "nat \<Rightarrow> nat" where
  "round_nat a =
     (let u = ulp a; q = a div u; r = a mod u
      in if u < 2 * r then (q + 1) * u
         else if 2 * r = u \<and> q mod 2 = 1 then (q + 1) * u
         else q * u)"

definition of_exact :: "int \<Rightarrow> number" where
  "of_exact n =
     (let m = round_nat (nat \<bar>n\<bar>)
      in if 2 ^ 1024 \<le> m then (if n < 0 then NegInf else PosInf)
         else Fin (if n < 0 then - int m else int m))"

fun num_neg :: "number \<Rightarrow> number" where
  "num_neg NaN = NaN"
| "num_neg PosInf = NegInf"
| "num_neg NegInf = PosInf"
| "num_neg (Fin n) = Fin (- n)"

fun num_add :: "number \<Rightarrow> number \<Rightarrow> number" where
  "num_add (Fin a) (Fin b) = of_exact (a + b)"
| "num_add NaN y = NaN"
| "num_add x NaN = NaN"
| "num_add PosInf NegInf = NaN"
| "num_add NegInf PosInf = NaN"
| "num_add PosInf y = PosInf"
| "num_add x PosInf = PosInf"
| "num_add NegInf y = NegInf"
| "num_add x NegInf = NegInf"

definition num_sub :: "number \<Rightarrow> number \<Rightarrow> number" where
  "num_sub x y = num_add x (num_neg y)"

subsection \<open>Values and property reads\<close>

text \<open>
  What reading a payload field or a property of a map can give: \<open>undefined\<close>, a number,
  or an object that is no counter at all (a function, or the prototype object).
\<close>

datatype jsval = Undefined | Number number | Object

text \<open>A field that may be missing: \<open>None\<close> reads as \<open>undefined\<close>.\<close>

fun field :: "number option \<Rightarrow> jsval" where
  "field None = Undefined"
| "field (Some n) = Number n"

text \<open>Truthiness: \<open>undefined\<close>, \<open>NaN\<close> and zero are falsy, everything else is truthy.\<close>

fun truthy :: "jsval \<Rightarrow> bool" where
  "truthy Undefined = False"
| "truthy (Number NaN) = False"
| "truthy (Number (Fin n)) = (n \<noteq> 0)"
| "truthy (Number PosInf) = True"
| "truthy (Number NegInf) = True"
| "truthy Object = True"

text \<open>The expression \<^verbatim>\<open>x || 0\<close>.\<close>

definition or_zero :: "jsval \<Rightarrow> jsval" where
  "or_zero x = (if truthy x then x else Number (Fin 0))"

text \<open>
  The conversion that arithmetic applies to an operand: a function or a plain object
  converts to a string that is no numeral, hence to \<open>NaN\<close>.
\<close>

fun ToNumber :: "jsval \<Rightarrow> number" where
  "ToNumber Undefined = NaN"
| "ToNumber (Number n) = n"
| "ToNumber Object = NaN"

text \<open>
  A map holds its own properties, the counters stored under tokens. A bracket read of a
  key that is not an own property still finds the members that every plain object
  inherits from the object prototype; all of them are functions, except the accessor
  \<^verbatim>\<open>__proto__\<close>, which gives the prototype itself.
\<close>

definition Object_prototype_keys :: "string list" where
  "Object_prototype_keys =
     [''constructor'', ''__defineGetter__'', ''__defineSetter__'', ''hasOwnProperty'',
      ''__lookupGetter__'', ''__lookupSetter__'', ''isPrototypeOf'',
      ''propertyIsEnumerable'', ''toString'', ''valueOf'', ''__proto__'',
      ''toLocaleString'']"

definition get_prop :: "(string \<rightharpoonup> number) \<Rightarrow> string \<Rightarrow> jsval" where
  "get_prop m k =
     (case m k of
        Some v \<Rightarrow> Number v
      | None \<Rightarrow> if k \<in> set Object_prototype_keys then Object else Undefined)"

subsection \<open>State, payloads and effects\<close>

record state =
  totalUnreadMessages :: number
  totalUnreadMentions :: number
  totalUnreadMentionDirect :: number
  unreadMessagesMap :: "string \<rightharpoonup> number"
  unreadMentionsMap :: "string \<rightharpoonup> number"
  unreadMentionDirectMap :: "string \<rightharpoonup> number"

text \<open>The payload of the update mutation; each counter is a number or missing.\<close>

record payload =
  token :: string
  unreadMessages :: "number option"
  unreadMentions :: "number option"
  unreadMentionDirect :: "number option"

text \<open>The object sent with the event: the three totals.\<close>

record UnreadCountEvent =
  evt_unreadMessages :: number
  evt_unreadMentions :: number
  evt_unreadMentionDirect :: number

text \<open>
  What a call does besides changing the state: events put on the event bus and lines
  written to the debug console, in the order in which they happen.
\<close>

datatype effect =
  Emit string UnreadCountEvent
  | ConsoleDebug string nat string

definition EVENTS_UNREAD_COUNT_UPDATED :: string where
  "EVENTS_UNREAD_COUNT_UPDATED = ''talk:unread:updated''"

text \<open>The state the module starts with.\<close>

definition initial_state :: state where
  "initial_state =
     \<lparr>totalUnreadMessages = Fin 0, totalUnreadMentions = Fin 0,
      totalUnreadMentionDirect = Fin 0,
      unreadMessagesMap = Map.empty, unreadMentionsMap = Map.empty,
      unreadMentionDirectMap = Map.empty\<rparr>"

text \<open>The object with the current totals that both emitting mutations build.\<close>

definition current_totals :: "state \<Rightarrow> UnreadCountEvent" where
  "current_totals s =
     \<lparr>evt_unreadMessages = totalUnreadMessages s,
      evt_unreadMentions = totalUnreadMentions s,
      evt_unreadMentionDirect = totalUnreadMentionDirect s\<rparr>"

subsection \<open>Mutations\<close>

text \<open>
  Each mutation returns the new state and the effects of this one call. The steps are
  those of the source, in its order. The value written under the token is
  \<^verbatim>\<open>field || 0\<close>, a number because the field is a number or missing. The framework's
  \<^verbatim>\<open>set\<close> and \<^verbatim>\<open>delete\<close> are taken by their contract: the first adds the key
  to the object as an own property holding the value (also when the prototype has a member
  of that name), the second removes the own property.
\<close>

definition UPDATE_CONVERSATION_COUNTS :: "state \<Rightarrow> payload \<Rightarrow> state \<times> effect list" where
  "UPDATE_CONVERSATION_COUNTS s p =
     (let messageDiff =
            num_sub (ToNumber (or_zero (field (unreadMessages p))))
              (ToNumber (or_zero (get_prop (unreadMessagesMap s) (token p))));
          mentionsDiff =
            num_sub (ToNumber (or_zero (field (unreadMentions p))))
              (ToNumber (or_zero (get_prop (unreadMentionsMap s) (token p))));
          mentionDirectDiff =
            num_sub (ToNumber (or_zero (field (unreadMentionDirect p))))
              (ToNumber (or_zero (get_prop (unreadMentionDirectMap s) (token p))));
          s1 = s\<lparr>unreadMessagesMap :=
                   (unreadMessagesMap s)
                     (token p \<mapsto> ToNumber (or_zero (field (unreadMessages p))))\<rparr>;
          s2 = s1\<lparr>unreadMentionsMap :=
                   (unreadMentionsMap s1)
                     (token p \<mapsto> ToNumber (or_zero (field (unreadMentions p))))\<rparr>;
          s3 = s2\<lparr>unreadMentionDirectMap :=
                   (unreadMentionDirectMap s2)
                     (token p \<mapsto> ToNumber (or_zero (field (unreadMentionDirect p))))\<rparr>;
          s4 = s3\<lparr>totalUnreadMessages := num_add (totalUnreadMessages s3) messageDiff\<rparr>;
          s5 = s4\<lparr>totalUnreadMentions := num_add (totalUnreadMentions s4) mentionsDiff\<rparr>;
          s6 = s5\<lparr>totalUnreadMentionDirect :=
                   num_add (totalUnreadMentionDirect s5) mentionDirectDiff\<rparr>
      in (s6, [Emit EVENTS_UNREAD_COUNT_UPDATED (current_totals s6)]))"

definition REMOVE_CONVERSATION :: "state \<Rightarrow> string \<Rightarrow> state \<times> effect list" where
  "REMOVE_CONVERSATION s tok =
     (let s1 = s\<lparr>totalUnreadMessages :=
                   num_sub (totalUnreadMessages s)
                     (ToNumber (or_zero (get_prop (unreadMessagesMap s) tok)))\<rparr>;
          s2 = s1\<lparr>totalUnreadMentions :=
                   num_sub (totalUnreadMentions s1)
                     (ToNumber (or_zero (get_prop (unreadMentionsMap s1) tok)))\<rparr>;
          s3 = s2\<lparr>totalUnreadMentionDirect :=
                   num_sub (totalUnreadMentionDirect s2)
                     (ToNumber (or_zero (get_prop (unreadMentionDirectMap s2) tok)))\<rparr>;
          s4 = s3\<lparr>unreadMessagesMap := (unreadMessagesMap s3)(tok := None)\<rparr>;
          s5 = s4\<lparr>unreadMentionsMap := (unreadMentionsMap s4)(tok := None)\<rparr>;
          s6 = s5\<lparr>unreadMentionDirectMap := (unreadMentionDirectMap s5)(tok := None)\<rparr>
      in (s6, [Emit EVENTS_UNREAD_COUNT_UPDATED (current_totals s6)]))"

definition RESET_ALL_COUNTERS :: "state \<Rightarrow> state \<times> effect list" where
  "RESET_ALL_COUNTERS s =
     (s\<lparr>totalUnreadMessages := Fin 0, totalUnreadMentions := Fin 0,
        totalUnreadMentionDirect := Fin 0,
        unreadMessagesMap := Map.empty, unreadMentionsMap := Map.empty,
        unreadMentionDirectMap := Map.empty\<rparr>, [])"

subsection \<open>Actions\<close>

text \<open>The first two actions commit the mutation of the same name with their payload.\<close>

definition updateConversationCounts :: "state \<Rightarrow> payload \<Rightarrow> state \<times> effect list" where
  "updateConversationCounts s p = UPDATE_CONVERSATION_COUNTS s p"

definition removeConversation :: "state \<Rightarrow> string \<Rightarrow> state \<times> effect list" where
  "removeConversation s tok = REMOVE_CONVERSATION s tok"

text \<open>
  A conversation of the root store's list, with the fields the recalculation reads
  (the mention counter is read from the field \<^verbatim>\<open>unreadMention\<close>).
\<close>

record conversation =
  conv_token :: string
  conv_unreadMessages :: "number option"
  conv_unreadMention :: "number option"
  conv_unreadMentionDirect :: "number option"

text \<open>The body of the \<^verbatim>\<open>forEach\<close> callback: the payload built from a conversation.\<close>

definition conversation_payload :: "conversation \<Rightarrow> payload" where
  "conversation_payload c =
     \<lparr>token = conv_token c,
      unreadMessages = Some (ToNumber (or_zero (field (conv_unreadMessages c)))),
      unreadMentions = Some (ToNumber (or_zero (field (conv_unreadMention c)))),
      unreadMentionDirect = Some (ToNumber (or_zero (field (conv_unreadMentionDirect c))))\<rparr>"

text \<open>The \<^verbatim>\<open>forEach\<close> loop, threading the state and collecting the effects.\<close>

fun forEach_update :: "conversation list \<Rightarrow> state \<Rightarrow> state \<times> effect list" where
  "forEach_update [] s = (s, [])"
| "forEach_update (c # cs) s =
     (let (s1, es1) = updateConversationCounts s (conversation_payload c);
          (s2, es2) = forEach_update cs s1
      in (s2, es1 @ es2))"

text \<open>
  The list of conversations comes from a getter of the root store; \<open>None\<close> stands for a
  missing (undefined or null) list.
\<close>

definition recalculateTotalUnreadCounters ::
  "state \<Rightarrow> conversation list option \<Rightarrow> state \<times> effect list" where
  "recalculateTotalUnreadCounters s conversationsList =
     (let (s1, es1) = RESET_ALL_COUNTERS s
      in case conversationsList of
           None \<Rightarrow> (s1, es1)
         | Some conversations \<Rightarrow>
             if length conversations = 0 then (s1, es1)
             else
               (let (s2, es2) = forEach_update conversations s1
                in (s2, es1 @ es2 @
                     [ConsoleDebug ''Recalculated unread counters from''
                        (length conversations) ''conversations''])))"

subsection \<open>Sequences of calls\<close>




subsection \<open>The sum of the tracked counters\<close>







section \<open>The guest-name store\<close>

text \<open>
  The store module itself is not part of the sources at hand; its test suite is. The
  operations below are modelled from the specification, and the test suite fixes the
  strings: the default name is \<^verbatim>\<open>Guest\<close> and the suffixed form of a name is the
  name followed by \<^verbatim>\<open> (guest)\<close> (the translation function of the tests returns the
  source string).
\<close>

definition t_Guest :: string where
  "t_Guest = ''Guest''"

definition t_guest_suffix :: "string \<Rightarrow> string" where
  "t_guest_suffix guest = guest @ '' (guest)''"

text \<open>The actor object passed to \<^verbatim>\<open>addGuestName\<close>, as the tests build it.\<close>

record actor =
  actor_token :: string
  actorId :: string
  actorDisplayName :: string

text \<open>Display names keyed by conversation token and actor id.\<close>

type_synonym guest_names = "string \<times> string \<rightharpoonup> string"

text \<open>
  Modelled from the spec: \<^verbatim>\<open>getGuestName\<close> of the guest-name store, whose module is
  missing. It returns the stored name, or the localized default when the entry is absent
  or empty.
\<close>

definition getGuestName :: "guest_names \<Rightarrow> string \<Rightarrow> string \<Rightarrow> string" where
  "getGuestName g tok aid =
     (case g (tok, aid) of
        None \<Rightarrow> t_Guest
      | Some n \<Rightarrow> if n = [] then t_Guest else n)"

text \<open>
  Modelled from the spec: \<^verbatim>\<open>getGuestNameWithGuestSuffix\<close> of the guest-name store, whose
  module is missing. It appends the marker to the name unless the name is the localized
  default, which is returned as it is.
\<close>

definition getGuestNameWithGuestSuffix :: "guest_names \<Rightarrow> string \<Rightarrow> string \<Rightarrow> string" where
  "getGuestNameWithGuestSuffix g tok aid =
     (let displayName = getGuestName g tok aid
      in if displayName = t_Guest then displayName else t_guest_suffix displayName)"

text \<open>
  Modelled from the spec: \<^verbatim>\<open>addGuestName\<close> of the guest-name store, whose module is
  missing. With \<^verbatim>\<open>noUpdate\<close> the name is set only if the entry is currently unset
  (absent or empty); without it the entry is always overwritten, an empty incoming name
  clearing it to the localized default.
\<close>

definition addGuestName :: "guest_names \<Rightarrow> actor \<Rightarrow> bool \<Rightarrow> guest_names" where
  "addGuestName g a noUpdate =
     (let key = (actor_token a, actorId a);
          unset = (case g key of None \<Rightarrow> True | Some n \<Rightarrow> n = [])
      in if noUpdate then
           (if unset then g(key \<mapsto> actorDisplayName a) else g)
         else
           g(key \<mapsto> (if actorDisplayName a = [] then t_Guest else actorDisplayName a)))"

text \<open>The error payload of a rejected remote call: at least a status code.\<close>

datatype ocs_error = OCSError (status: nat)

text \<open>
  Everything the submission reads or writes: the guest names, the actor id and the display
  name of the current user in the global store, the persisted nickname (\<open>None\<close> as long
  as none has been persisted) and the errors logged to the console.
\<close>

record guest_world =
  guestNames :: guest_names
  currentActorId :: string
  displayName :: string
  guestNickname :: "string option"
  console_error :: "ocs_error list"

text \<open>
  Modelled from the spec: \<^verbatim>\<open>submitGuestUsername\<close> of the guest-name store, whose module
  is missing. The remote service is a parameter: it answers \<open>None\<close> on success and the
  error payload on failure. The local name is updated first; on success the global display
  name and the persisted nickname follow (an empty name persisting the localized default);
  on failure the local name and the display name go back to the prior name, the error is
  logged, and the call still returns normally (\<open>Inr\<close>; \<open>Inl\<close> would be an error
  reaching the caller).
\<close>

definition submitGuestUsername ::
  "(string \<Rightarrow> string \<Rightarrow> ocs_error option) \<Rightarrow> guest_world \<Rightarrow> string \<Rightarrow> string
     \<Rightarrow> ocs_error + guest_world" where
  "submitGuestUsername setGuestUserName w tok newName =
     (let aid = currentActorId w;
          previousName = getGuestName (guestNames w) tok aid;
          w1 = w\<lparr>guestNames :=
                  addGuestName (guestNames w)
                    \<lparr>actor_token = tok, actorId = aid, actorDisplayName = newName\<rparr> False\<rparr>
      in case setGuestUserName tok newName of
           None \<Rightarrow>
             Inr (w1\<lparr>displayName := newName,
                     guestNickname := Some (if newName = [] then t_Guest else newName)\<rparr>)
         | Some err \<Rightarrow>
             Inr (w1\<lparr>guestNames :=
                        addGuestName (guestNames w1)
                          \<lparr>actor_token = tok, actorId = aid,
                           actorDisplayName = previousName\<rparr> False,
                     displayName := previousName,
                     console_error := console_error w1 @ [err]\<rparr>))"

section \<open>Properties of the unread-counter store\<close>

subsection \<open>Exact arithmetic and plain reads\<close>






lemma get_prop_plain: "k \<notin> set Object_prototype_keys \<Longrightarrow> get_prop m k = field (m k)"
  by (simp add: get_prop_def split: option.splits)



subsection \<open>Sums over the tracked tokens\<close>









subsection \<open>One step keeps the totals equal to the sums\<close>










subsection \<open>Evaluating concrete calls\<close>



lemma inherited_constructor: "''constructor'' \<in> set Object_prototype_keys"
  by (simp add: Object_prototype_keys_def)

lemma inherited_toString: "''toString'' \<in> set Object_prototype_keys"
  by (simp add: Object_prototype_keys_def)

lemma plain_t:
  "''t1'' \<notin> set Object_prototype_keys" "''t2'' \<notin> set Object_prototype_keys" "''t3'' \<notin> set Object_prototype_keys"
  by (simp_all add: Object_prototype_keys_def)

lemma get_prop_inherited:
  "k \<in> set Object_prototype_keys \<Longrightarrow> get_prop m k = (case m k of None \<Rightarrow> Object | Some v \<Rightarrow> Number v)"
  by (simp add: get_prop_def split: option.splits)

lemmas eval_defs = updateConversationCounts_def UPDATE_CONVERSATION_COUNTS_def
  removeConversation_def REMOVE_CONVERSATION_def Let_def initial_state_def
  or_zero_def num_sub_def of_exact_def round_nat_def ulp.simps
  get_prop_plain get_prop_inherited plain_t inherited_constructor inherited_toString

subsection \<open>The totals are the sums\<close>




subsection \<open>What one update does\<close>




subsection \<open>What one removal does\<close>




subsection \<open>Which operations emit the event\<close>

text \<open>
  Claim C4, amended. Every \<^verbatim>\<open>updateConversationCounts\<close> and every
  \<^verbatim>\<open>removeConversation\<close> emits the \<^verbatim>\<open>talk:unread:updated\<close> event exactly once,
  with the totals of the state it leaves behind as payload, whatever the difference it
  applied (a difference of zero included).
\<close>

theorem update_and_remove_emit_once:
  "snd (updateConversationCounts s p) =
     [Emit ''talk:unread:updated''
        \<lparr>evt_unreadMessages = totalUnreadMessages (fst (updateConversationCounts s p)),
         evt_unreadMentions = totalUnreadMentions (fst (updateConversationCounts s p)),
         evt_unreadMentionDirect =
           totalUnreadMentionDirect (fst (updateConversationCounts s p))\<rparr>] \<and>
   snd (removeConversation s tok) =
     [Emit ''talk:unread:updated''
        \<lparr>evt_unreadMessages = totalUnreadMessages (fst (removeConversation s tok)),
         evt_unreadMentions = totalUnreadMentions (fst (removeConversation s tok)),
         evt_unreadMentionDirect =
           totalUnreadMentionDirect (fst (removeConversation s tok))\<rparr>]"
  by (simp add: updateConversationCounts_def UPDATE_CONVERSATION_COUNTS_def
      removeConversation_def REMOVE_CONVERSATION_def Let_def
      current_totals_def EVENTS_UNREAD_COUNT_UPDATED_def)

text \<open>
  Repeating an update changes no total, and the event is emitted all the same; removing
  a token that is not tracked emits it too.
\<close>

theorem update_and_remove_emit_once_witness:
  "snd (updateConversationCounts
          (fst (updateConversationCounts initial_state
             \<lparr>token = ''t1'', unreadMessages = Some (Fin 5), unreadMentions = Some (Fin 1),
              unreadMentionDirect = Some (Fin 0)\<rparr>))
          \<lparr>token = ''t1'', unreadMessages = Some (Fin 5), unreadMentions = Some (Fin 1),
           unreadMentionDirect = Some (Fin 0)\<rparr>) =
     [Emit ''talk:unread:updated''
        \<lparr>evt_unreadMessages = Fin 5, evt_unreadMentions = Fin 1,
         evt_unreadMentionDirect = Fin 0\<rparr>] \<and>
   snd (removeConversation initial_state ''t2'') =
     [Emit ''talk:unread:updated''
        \<lparr>evt_unreadMessages = Fin 0, evt_unreadMentions = Fin 0,
         evt_unreadMentionDirect = Fin 0\<rparr>]"
  using update_and_remove_emit_once [of
      "fst (updateConversationCounts initial_state
             \<lparr>token = ''t1'', unreadMessages = Some (Fin 5), unreadMentions = Some (Fin 1),
              unreadMentionDirect = Some (Fin 0)\<rparr>)"
      "\<lparr>token = ''t1'', unreadMessages = Some (Fin 5), unreadMentions = Some (Fin 1),
        unreadMentionDirect = Some (Fin 0)\<rparr>" "''t2''"]
    update_and_remove_emit_once [of initial_state
      "\<lparr>token = ''t1'', unreadMessages = Some (Fin 5), unreadMentions = Some (Fin 1),
        unreadMentionDirect = Some (Fin 0)\<rparr>" "''t2''"]
  by (simp add: eval_defs)

text \<open>
  Not every mutation emits: resetting a store that tracks five unread messages changes
  the total and emits no event.
\<close>

theorem reset_emits_nothing_counterexample:
  "totalUnreadMessages
     (fst (RESET_ALL_COUNTERS
        (fst (updateConversationCounts initial_state
           \<lparr>token = ''t1'', unreadMessages = Some (Fin 5), unreadMentions = Some (Fin 1),
            unreadMentionDirect = None\<rparr>))))
   \<noteq> totalUnreadMessages
        (fst (updateConversationCounts initial_state
           \<lparr>token = ''t1'', unreadMessages = Some (Fin 5), unreadMentions = Some (Fin 1),
            unreadMentionDirect = None\<rparr>)) \<and>
   snd (RESET_ALL_COUNTERS
        (fst (updateConversationCounts initial_state
           \<lparr>token = ''t1'', unreadMessages = Some (Fin 5), unreadMentions = Some (Fin 1),
            unreadMentionDirect = None\<rparr>))) = []"
  by (simp add: RESET_ALL_COUNTERS_def eval_defs)

subsection \<open>Missing counters\<close>











subsection \<open>Reset and recalculation over no conversations\<close>

text \<open>
  Claim C9. Run with an empty list of conversations, or with no list at all,
  \<^verbatim>\<open>recalculateTotalUnreadCounters\<close> leaves the three totals at 0 and the three maps
  empty, whatever the state before.
\<close>

theorem recalculate_empty_resets:
  "totalUnreadMessages (fst (recalculateTotalUnreadCounters s None)) = Fin 0 \<and>
   totalUnreadMentions (fst (recalculateTotalUnreadCounters s None)) = Fin 0 \<and>
   totalUnreadMentionDirect (fst (recalculateTotalUnreadCounters s None)) = Fin 0 \<and>
   unreadMessagesMap (fst (recalculateTotalUnreadCounters s None)) = Map.empty \<and>
   unreadMentionsMap (fst (recalculateTotalUnreadCounters s None)) = Map.empty \<and>
   unreadMentionDirectMap (fst (recalculateTotalUnreadCounters s None)) = Map.empty \<and>
   totalUnreadMessages (fst (recalculateTotalUnreadCounters s (Some []))) = Fin 0 \<and>
   totalUnreadMentions (fst (recalculateTotalUnreadCounters s (Some []))) = Fin 0 \<and>
   totalUnreadMentionDirect (fst (recalculateTotalUnreadCounters s (Some []))) = Fin 0 \<and>
   unreadMessagesMap (fst (recalculateTotalUnreadCounters s (Some []))) = Map.empty \<and>
   unreadMentionsMap (fst (recalculateTotalUnreadCounters s (Some []))) = Map.empty \<and>
   unreadMentionDirectMap (fst (recalculateTotalUnreadCounters s (Some []))) = Map.empty"
  by (simp add: recalculateTotalUnreadCounters_def RESET_ALL_COUNTERS_def)

text \<open>
  Claim C10. The reset mutation turns any state into the all-zero state with empty maps
  and has no effect besides: no event is emitted. The same holds for the recalculation
  over an empty or missing list of conversations, which stops after the reset.
\<close>

theorem reset_is_silent:
  "RESET_ALL_COUNTERS s = (initial_state, []) \<and>
   recalculateTotalUnreadCounters s None = (initial_state, []) \<and>
   recalculateTotalUnreadCounters s (Some []) = (initial_state, [])"
  by (simp add: recalculateTotalUnreadCounters_def RESET_ALL_COUNTERS_def initial_state_def)

section \<open>Properties of the guest-name store\<close>

lemma getGuestName_addGuestName_overwrite:
  "getGuestName (addGuestName g a False) (actor_token a) (actorId a) =
     (if actorDisplayName a = [] then t_Guest else actorDisplayName a)"
  by (simp add: getGuestName_def addGuestName_def Let_def t_Guest_def)

lemma getGuestName_nonempty: "getGuestName g tok aid \<noteq> []"
  by (simp add: getGuestName_def t_Guest_def split: option.splits)

subsection \<open>Reading a name\<close>

text \<open>
  Claim C7. For every token and actor id, \<^verbatim>\<open>getGuestName\<close> returns the localized
  default when there is no entry or the stored name is empty. The suffixed getter returns
  the default without the marker when the entry is absent, empty or the default itself,
  and the stored name followed by \<^verbatim>\<open> (guest)\<close> for every other stored name.
\<close>

theorem guest_name_default_and_suffix:
  "(g (tok, aid) = None \<longrightarrow> getGuestName g tok aid = t_Guest) \<and>
   (g (tok, aid) = Some [] \<longrightarrow> getGuestName g tok aid = t_Guest) \<and>
   (g (tok, aid) = None \<longrightarrow> getGuestNameWithGuestSuffix g tok aid = t_Guest) \<and>
   (g (tok, aid) = Some [] \<longrightarrow> getGuestNameWithGuestSuffix g tok aid = t_Guest) \<and>
   (g (tok, aid) = Some t_Guest \<longrightarrow> getGuestNameWithGuestSuffix g tok aid = t_Guest) \<and>
   (g (tok, aid) = Some n \<and> n \<noteq> [] \<and> n \<noteq> t_Guest \<longrightarrow>
      getGuestNameWithGuestSuffix g tok aid = n @ '' (guest)'')"
  by (simp add: getGuestName_def getGuestNameWithGuestSuffix_def t_guest_suffix_def t_Guest_def)

text \<open>The names of the test suite: a missing entry, an empty one, the default, a real name.\<close>

theorem guest_name_default_and_suffix_witness:
  "getGuestName Map.empty ''token-2'' ''actor-id1'' = ''Guest'' \<and>
   getGuestName [(''token-1'', ''actor-id1'') \<mapsto> []] ''token-1'' ''actor-id1'' = ''Guest'' \<and>
   getGuestNameWithGuestSuffix [(''token-1'', ''actor-id1'') \<mapsto> ''Guest'']
     ''token-1'' ''actor-id1'' = ''Guest'' \<and>
   getGuestNameWithGuestSuffix [(''token-1'', ''actor-id1'') \<mapsto> ''actor-display-name-one'']
     ''token-1'' ''actor-id1'' = ''actor-display-name-one (guest)''"
  using guest_name_default_and_suffix [of Map.empty "''token-2''" "''actor-id1''" "''x''"]
    guest_name_default_and_suffix
      [of "[(''token-1'', ''actor-id1'') \<mapsto> []]" "''token-1''" "''actor-id1''" "''x''"]
    guest_name_default_and_suffix
      [of "[(''token-1'', ''actor-id1'') \<mapsto> ''Guest'']" "''token-1''" "''actor-id1''" "''x''"]
    guest_name_default_and_suffix
      [of "[(''token-1'', ''actor-id1'') \<mapsto> ''actor-display-name-one'']"
          "''token-1''" "''actor-id1''" "''actor-display-name-one''"]
  by (simp add: t_Guest_def)

subsection \<open>Adding a name\<close>

text \<open>
  Claim C6. For every token and actor id: with \<^verbatim>\<open>noUpdate\<close> set,
  \<^verbatim>\<open>addGuestName\<close> leaves the store as it is when the entry holds a name other than
  the default; with \<^verbatim>\<open>noUpdate\<close> unset, the entry afterwards holds the incoming
  name, or the localized default when the incoming name is empty, whatever it held before.
\<close>

theorem addGuestName_noUpdate_policy:
  "(getGuestName g (actor_token a) (actorId a) \<noteq> t_Guest \<longrightarrow>
      addGuestName g a True = g) \<and>
   addGuestName g a False (actor_token a, actorId a) =
     Some (if actorDisplayName a = [] then t_Guest else actorDisplayName a) \<and>
   getGuestName (addGuestName g a False) (actor_token a) (actorId a) =
     (if actorDisplayName a = [] then t_Guest else actorDisplayName a)"
  by (auto simp add: getGuestName_def addGuestName_def Let_def t_Guest_def
      split: option.splits if_splits)

text \<open>
  The cases of the test suite: no overwrite under \<^verbatim>\<open>noUpdate\<close>, forced overwrite,
  and clearing with the empty name.
\<close>

theorem addGuestName_noUpdate_policy_witness:
  "getGuestName
     (addGuestName [(''token-1'', ''actor-id1'') \<mapsto> ''actor-display-name-one'']
        \<lparr>actor_token = ''token-1'', actorId = ''actor-id1'',
         actorDisplayName = ''actor-display-name-another''\<rparr> True)
     ''token-1'' ''actor-id1'' = ''actor-display-name-one'' \<and>
   getGuestName
     (addGuestName [(''token-1'', ''actor-id1'') \<mapsto> ''actor-display-name-one'']
        \<lparr>actor_token = ''token-1'', actorId = ''actor-id1'',
         actorDisplayName = ''actor-display-name-another''\<rparr> False)
     ''token-1'' ''actor-id1'' = ''actor-display-name-another'' \<and>
   getGuestName
     (addGuestName [(''token-1'', ''actor-id1'') \<mapsto> ''actor-display-name-one'']
        \<lparr>actor_token = ''token-1'', actorId = ''actor-id1'', actorDisplayName = []\<rparr> False)
     ''token-1'' ''actor-id1'' = ''Guest''"
  using addGuestName_noUpdate_policy
      [of "[(''token-1'', ''actor-id1'') \<mapsto> ''actor-display-name-one'']"
          "\<lparr>actor_token = ''token-1'', actorId = ''actor-id1'',
            actorDisplayName = ''actor-display-name-another''\<rparr>"]
    addGuestName_noUpdate_policy
      [of "[(''token-1'', ''actor-id1'') \<mapsto> ''actor-display-name-one'']"
          "\<lparr>actor_token = ''token-1'', actorId = ''actor-id1'', actorDisplayName = []\<rparr>"]
  by (simp add: t_Guest_def getGuestName_def)

subsection \<open>Submitting a name\<close>

text \<open>
  Claim C5. For every token, new name and prior state: when the remote call fails,
  \<^verbatim>\<open>submitGuestUsername\<close> returns normally, the guest name of the current user in the
  conversation is again the prior name, the display name of the current user is that prior
  name, the persisted nickname is untouched and the error is logged; when the remote call
  succeeds, the guest name is the new name (the localized default for an empty one), the
  display name is the new name, and the persisted nickname is the new name, or the
  localized default when the new name is empty.
\<close>

theorem submitGuestUsername_outcomes:
  "(setGuestUserName tok newName = Some err \<longrightarrow>
      (case submitGuestUsername setGuestUserName w tok newName of
         Inl e \<Rightarrow> False
       | Inr w' \<Rightarrow>
           getGuestName (guestNames w') tok (currentActorId w) =
             getGuestName (guestNames w) tok (currentActorId w) \<and>
           displayName w' = getGuestName (guestNames w) tok (currentActorId w) \<and>
           guestNickname w' = guestNickname w \<and>
           console_error w' = console_error w @ [err])) \<and>
   (setGuestUserName tok newName = None \<longrightarrow>
      (case submitGuestUsername setGuestUserName w tok newName of
         Inl e \<Rightarrow> False
       | Inr w' \<Rightarrow>
           getGuestName (guestNames w') tok (currentActorId w) =
             (if newName = [] then t_Guest else newName) \<and>
           displayName w' = newName \<and>
           guestNickname w' = Some (if newName = [] then t_Guest else newName) \<and>
           console_error w' = console_error w))"
proof -
  let ?a = "\<lambda>n. \<lparr>actor_token = tok, actorId = currentActorId w, actorDisplayName = n\<rparr>"
  have revert: "getGuestName (addGuestName g (?a (getGuestName (guestNames w) tok (currentActorId w))) False)
                tok (currentActorId w) = getGuestName (guestNames w) tok (currentActorId w)" for g
    using getGuestName_addGuestName_overwrite
      [of g "?a (getGuestName (guestNames w) tok (currentActorId w))"]
    by (simp add: getGuestName_nonempty)
  have fwd: "getGuestName (addGuestName g (?a newName) False) tok (currentActorId w) =
               (if newName = [] then t_Guest else newName)" for g
    using getGuestName_addGuestName_overwrite [of g "?a newName"] by simp
  show ?thesis
    by (simp add: submitGuestUsername_def Let_def revert fwd split: option.splits)
qed

text \<open>
  The three submissions of the test suite: a rejected one (status 400) after the name
  \<^verbatim>\<open>old actor 1\<close>, an accepted one, and an accepted empty name.
\<close>

theorem submitGuestUsername_outcomes_witness:
  "(case submitGuestUsername (\<lambda>t n. Some (OCSError 400))
       \<lparr>guestNames = [(''token-1'', ''actor-id1'') \<mapsto> ''old actor 1''],
        currentActorId = ''actor-id1'', displayName = [], guestNickname = None,
        console_error = []\<rparr> ''token-1'' ''actor 1'' of
      Inl e \<Rightarrow> False
    | Inr w' \<Rightarrow>
        getGuestName (guestNames w') ''token-1'' ''actor-id1'' = ''old actor 1'' \<and>
        displayName w' = ''old actor 1'' \<and> guestNickname w' = None \<and>
        console_error w' = [OCSError 400]) \<and>
   (case submitGuestUsername (\<lambda>t n. None)
       \<lparr>guestNames = [(''token-1'', ''actor-id1'') \<mapsto> ''Guest''],
        currentActorId = ''actor-id1'', displayName = [], guestNickname = None,
        console_error = []\<rparr> ''token-1'' ''actor 1'' of
      Inl e \<Rightarrow> False
    | Inr w' \<Rightarrow>
        getGuestName (guestNames w') ''token-1'' ''actor-id1'' = ''actor 1'' \<and>
        displayName w' = ''actor 1'' \<and> guestNickname w' = Some ''actor 1'') \<and>
   (case submitGuestUsername (\<lambda>t n. None)
       \<lparr>guestNames = [(''token-1'', ''actor-id1'') \<mapsto> ''actor 1''],
        currentActorId = ''actor-id1'', displayName = [], guestNickname = None,
        console_error = []\<rparr> ''token-1'' [] of
      Inl e \<Rightarrow> False
    | Inr w' \<Rightarrow> guestNickname w' = Some ''Guest'')"
  using submitGuestUsername_outcomes
      [of "\<lambda>t n. Some (OCSError 400)" "''token-1''" "''actor 1''" "OCSError 400"
          "\<lparr>guestNames = [(''token-1'', ''actor-id1'') \<mapsto> ''old actor 1''],
            currentActorId = ''actor-id1'', displayName = [], guestNickname = None,
            console_error = []\<rparr>"]
    submitGuestUsername_outcomes
      [of "\<lambda>t n. None" "''token-1''" "''actor 1''" "OCSError 400"
          "\<lparr>guestNames = [(''token-1'', ''actor-id1'') \<mapsto> ''Guest''],
            currentActorId = ''actor-id1'', displayName = [], guestNickname = None,
            console_error = []\<rparr>"]
    submitGuestUsername_outcomes
      [of "\<lambda>t n. None" "''token-1''" "[]" "OCSError 400"
          "\<lparr>guestNames = [(''token-1'', ''actor-id1'') \<mapsto> ''actor 1''],
            currentActorId = ''actor-id1'', displayName = [], guestNickname = None,
            console_error = []\<rparr>"]
  by (simp add: t_Guest_def getGuestName_def split: sum.splits)

end
